theory Spec2Isabelle
  imports Complex_Main "HOL-Library.Word"
begin

unbundle bit_operations_syntax

section \<open>Discord audio format constants (voice\_changer.py, lines 14--18)\<close>

type_synonym byte = "8 word"
type_synonym pcm = "byte list"

definition DISCORD_SAMPLE_RATE :: nat where
  "DISCORD_SAMPLE_RATE = 48000"

definition DISCORD_CHANNELS :: nat where
  "DISCORD_CHANNELS = 2"

definition DISCORD_FRAME_MS :: nat where
  "DISCORD_FRAME_MS = 20"

definition DISCORD_FRAME_SAMPLES :: nat where
  "DISCORD_FRAME_SAMPLES = DISCORD_SAMPLE_RATE * DISCORD_FRAME_MS div 1000"

definition DISCORD_FRAME_BYTES :: nat where
  "DISCORD_FRAME_BYTES = DISCORD_FRAME_SAMPLES * DISCORD_CHANNELS * 2"

section \<open>BufferedAudioSource (bot.py, lines 32--73)\<close>

text \<open>
  The object's only data is the bytearray \<^verbatim>\<open>_buf\<close>; the lock has no sequential
  content. Every method takes the object and returns it updated.
\<close>

record BufferedAudioSource =
  buf :: pcm

definition BufferedAudioSource_init :: BufferedAudioSource where
  "BufferedAudioSource_init = \<lparr>buf = []\<rparr>"

text \<open>\<^verbatim>\<open>read\<close>: the returned frame and the object afterwards.\<close>

definition BufferedAudioSource_read :: "BufferedAudioSource \<Rightarrow> pcm \<times> BufferedAudioSource" where
  "BufferedAudioSource_read s =
     (if length (buf s) \<ge> DISCORD_FRAME_BYTES
      then (take DISCORD_FRAME_BYTES (buf s), s\<lparr>buf := drop DISCORD_FRAME_BYTES (buf s)\<rparr>)
      else (replicate DISCORD_FRAME_BYTES 0, s))"

definition BufferedAudioSource_cleanup :: "BufferedAudioSource \<Rightarrow> BufferedAudioSource" where
  "BufferedAudioSource_cleanup s = s\<lparr>buf := []\<rparr>"

definition BufferedAudioSource_push :: "BufferedAudioSource \<Rightarrow> pcm \<Rightarrow> BufferedAudioSource" where
  "BufferedAudioSource_push s data = s\<lparr>buf := buf s @ data\<rparr>"

section \<open>Floating-point values\<close>

text \<open>
  A Python float or a numpy array element: a finite value (held as the real number
  it denotes; the two zeros are not told apart), an infinity, or NaN.
\<close>

datatype flt = Fin real | PInf | NInf | NaN

text \<open>Python's \<^verbatim>\<open>round\<close> on a float: to the nearest integer, ties to the even one.\<close>

definition py_round :: "real \<Rightarrow> int" where
  "py_round x =
     (let f = \<lfloor>x\<rfloor>; d = x - of_int f
      in if d < 1 / 2 then f else if d > 1 / 2 then f + 1
         else if even f then f else f + 1)"

text \<open>
  IEEE 754 rounding to nearest, ties to even, for a binary format with \<open>p\<close>
  significant bits and least normal exponent \<open>emin\<close>: the value is rounded on the
  grid of spacing \<open>2 ^ (e - (p - 1))\<close>, with \<open>e\<close> its binary exponent (at least
  \<open>emin\<close>, which gives the subnormal grid and underflow to zero). A result above the
  largest finite value of the format is an infinity.
\<close>

definition round_to :: "nat \<Rightarrow> int \<Rightarrow> real \<Rightarrow> real" where
  "round_to p emin x =
     (if x = 0 then 0
      else
        (let e = max emin \<lfloor>log 2 \<bar>x\<bar>\<rfloor>;
             u = 2 powr (of_int e - (real p - 1))
         in of_int (py_round (x / u)) * u))"

definition max_finite :: "nat \<Rightarrow> int \<Rightarrow> real" where
  "max_finite p emax = (2 - 2 powr (1 - real p)) * 2 powr (of_int emax)"

definition to_float :: "nat \<Rightarrow> int \<Rightarrow> int \<Rightarrow> real \<Rightarrow> flt" where
  "to_float p emin emax x =
     (let r = round_to p emin x
      in if r > max_finite p emax then PInf
         else if r < - max_finite p emax then NInf
         else Fin r)"

definition to_f64 :: "real \<Rightarrow> flt" where
  "to_f64 = to_float 53 (- 1022) 1023"

definition to_f32 :: "real \<Rightarrow> flt" where
  "to_f32 = to_float 24 (- 126) 127"

text \<open>\<^verbatim>\<open>a.astype(np.float32)\<close> on one element.\<close>

definition astype_float32 :: "flt \<Rightarrow> flt" where
  "astype_float32 v = (case v of Fin x \<Rightarrow> to_f32 x | PInf \<Rightarrow> PInf | NInf \<Rightarrow> NInf | NaN \<Rightarrow> NaN)"

subsection \<open>Python's float operations, with the exceptions they raise\<close>

datatype py_error =
  ValueError | ImportError | RuntimeError | KeyError | OverflowError | ZeroDivisionError

text \<open>Sequencing of calls that may raise.\<close>

definition try_then :: "py_error + 'a \<Rightarrow> ('a \<Rightarrow> py_error + 'b) \<Rightarrow> py_error + 'b" where
  "try_then r f = (case r of Inl e \<Rightarrow> Inl e | Inr v \<Rightarrow> f v)"

text \<open>IEEE division in binary64 by a divisor that is not zero.\<close>

fun flt_div :: "flt \<Rightarrow> flt \<Rightarrow> flt" where
  "flt_div NaN b = NaN"
| "flt_div a NaN = NaN"
| "flt_div (Fin x) (Fin y) = to_f64 (x / y)"
| "flt_div (Fin x) b = Fin 0"
| "flt_div PInf (Fin y) = (if y > 0 then PInf else NInf)"
| "flt_div NInf (Fin y) = (if y > 0 then NInf else PInf)"
| "flt_div a b = NaN"

text \<open>\<^verbatim>\<open>a / b\<close> on floats: a zero divisor raises.\<close>

definition py_truediv :: "flt \<Rightarrow> flt \<Rightarrow> py_error + flt" where
  "py_truediv a b = (if b = Fin 0 then Inl ZeroDivisionError else Inr (flt_div a b))"

text \<open>
  \<^verbatim>\<open>2.0 ** y\<close>: an overflowing result raises, an underflowing one is 0.0. The C
  library's power function is taken to round correctly.
\<close>

definition py_pow2 :: "flt \<Rightarrow> py_error + flt" where
  "py_pow2 y =
     (case y of
        NaN \<Rightarrow> Inr NaN
      | PInf \<Rightarrow> Inr PInf
      | NInf \<Rightarrow> Inr (Fin 0)
      | Fin e \<Rightarrow>
          (case to_f64 (2 powr e) of
             PInf \<Rightarrow> Inl OverflowError
           | v \<Rightarrow> Inr v))"

text \<open>The conversion of an int operand to float; too large an int raises.\<close>

definition py_float_of_nat :: "nat \<Rightarrow> py_error + flt" where
  "py_float_of_nat n =
     (case to_f64 (real n) of
        PInf \<Rightarrow> Inl OverflowError
      | v \<Rightarrow> Inr v)"

text \<open>\<^verbatim>\<open>round(q)\<close> on a float: NaN and the infinities raise.\<close>

definition py_round_float :: "flt \<Rightarrow> py_error + int" where
  "py_round_float q =
     (case q of
        Fin x \<Rightarrow> Inr (py_round x)
      | NaN \<Rightarrow> Inl ValueError
      | PInf \<Rightarrow> Inl OverflowError
      | NInf \<Rightarrow> Inl OverflowError)"

text \<open>\<^verbatim>\<open>n / m\<close> on two ints: the correctly rounded quotient.\<close>

definition py_int_truediv :: "nat \<Rightarrow> nat \<Rightarrow> py_error + flt" where
  "py_int_truediv n m =
     (if m = 0 then Inl ZeroDivisionError
      else
        (case to_f64 (real n / real m) of
           PInf \<Rightarrow> Inl OverflowError
         | v \<Rightarrow> Inr v))"

text \<open>\<^verbatim>\<open>int(np.ceil(q))\<close>.\<close>

definition int_ceil :: "flt \<Rightarrow> py_error + int" where
  "int_ceil q =
     (case q of
        Fin x \<Rightarrow> Inr \<lceil>x\<rceil>
      | NaN \<Rightarrow> Inl ValueError
      | PInf \<Rightarrow> Inl OverflowError
      | NInf \<Rightarrow> Inl OverflowError)"

section \<open>VoiceChanger: the mode state (voice\_changer.py, lines 65--113)\<close>

record VoiceChanger =
  mode :: string
  gender_st :: flt
  custom_st :: flt

definition FIXED :: "string \<rightharpoonup> flt" where
  "FIXED = map_of [(''normal'', Fin 0), (''high'', Fin 6), (''low'', Fin (- 6))]"

definition VoiceChanger_init :: VoiceChanger where
  "VoiceChanger_init = \<lparr>mode = ''normal'', gender_st = Fin 10, custom_st = Fin 0\<rparr>"

definition semitones :: "VoiceChanger \<Rightarrow> flt" where
  "semitones c =
     (if mode c = ''gender'' then gender_st c
      else if mode c = ''custom'' then custom_st c
      else (case FIXED (mode c) of Some v \<Rightarrow> v | None \<Rightarrow> Fin 0))"

definition set_normal :: "VoiceChanger \<Rightarrow> VoiceChanger" where
  "set_normal c = c\<lparr>mode := ''normal''\<rparr>"

definition set_high :: "VoiceChanger \<Rightarrow> VoiceChanger" where
  "set_high c = c\<lparr>mode := ''high''\<rparr>"

definition set_low :: "VoiceChanger \<Rightarrow> VoiceChanger" where
  "set_low c = c\<lparr>mode := ''low''\<rparr>"

definition set_gender :: "bool \<Rightarrow> VoiceChanger \<Rightarrow> VoiceChanger" where
  "set_gender male_to_female c =
     c\<lparr>gender_st := (if male_to_female then Fin 10 else Fin (- 10)), mode := ''gender''\<rparr>"

text \<open>The mode-set operations a caller can issue, and a run of them from the initial state.\<close>

datatype mode_op = SetNormal | SetHigh | SetLow | SetGender bool

fun apply_mode_op :: "VoiceChanger \<Rightarrow> mode_op \<Rightarrow> VoiceChanger" where
  "apply_mode_op c SetNormal = set_normal c"
| "apply_mode_op c SetHigh = set_high c"
| "apply_mode_op c SetLow = set_low c"
| "apply_mode_op c (SetGender b) = set_gender b c"

definition run_mode_ops :: "mode_op list \<Rightarrow> VoiceChanger" where
  "run_mode_ops ops = foldl apply_mode_op VoiceChanger_init ops"

section \<open>The transform engine (voice\_changer.py, lines 21--60 and 117--138)\<close>

datatype engine = Pyrubberband | Librosa | Scipy

text \<open>
  The third-party libraries are outside the repository, so they are parameters of
  the model: whether each import succeeds, and what each library call returns (a
  sample array, or the exception it raises). The calls carry the arguments the
  source passes: the signal, the sample rate, the shift, and for librosa the
  optional pair \<^verbatim>\<open>(bins_per_octave, n_fft)\<close> that only main.py supplies.
  \<^verbatim>\<open>sg_resample x num\<close> is \<^verbatim>\<open>scipy.signal.resample(x, num)\<close>.
  \<open>cast_nan_int16\<close> is what the platform's conversion of NaN to int16 yields, which
  numpy leaves undefined.
\<close>

record libraries =
  has_pyrubberband :: bool
  has_librosa :: bool
  has_scipy :: bool
  pyrb_pitch_shift :: "flt list \<Rightarrow> nat \<Rightarrow> flt \<Rightarrow> py_error + flt list"
  librosa_pitch_shift ::
    "flt list \<Rightarrow> nat \<Rightarrow> flt \<Rightarrow> (nat \<times> nat) option \<Rightarrow> py_error + flt list"
  sg_resample :: "flt list \<Rightarrow> nat \<Rightarrow> py_error + flt list"
  cast_nan_int16 :: "16 word"

text \<open>The module-level nested \<^verbatim>\<open>try: import ...\<close> that fixes \<^verbatim>\<open>_ENGINE\<close>.\<close>

definition ENGINE :: "libraries \<Rightarrow> engine" where
  "ENGINE L =
     (if has_pyrubberband L then Pyrubberband
      else if has_librosa L then Librosa
      else Scipy)"

text \<open>\<^verbatim>\<open>np.tile(a, reps)\<close> on a one-dimensional array.\<close>

definition np_tile :: "'a list \<Rightarrow> nat \<Rightarrow> 'a list" where
  "np_tile a reps = concat (replicate reps a)"

text \<open>
  \<^verbatim>\<open>_pitch_shift\<close> (its argument \<^verbatim>\<open>mono\<close> is \<open>mono_arr\<close> here). In the scipy
  branch the import inside the function raises ImportError when scipy is missing,
  and every float operation raises what Python raises: \<^verbatim>\<open>2.0 ** y\<close> on overflow,
  the division by a factor that underflowed to zero, \<^verbatim>\<open>round\<close> on NaN or an
  infinity. \<^verbatim>\<open>mono.astype(np.float64)\<close> changes no value.
\<close>

definition vc_pitch_shift :: "libraries \<Rightarrow> flt list \<Rightarrow> flt \<Rightarrow> py_error + flt list" where
  "vc_pitch_shift L mono_arr st =
     (if ENGINE L = Pyrubberband
      then try_then (pyrb_pitch_shift L mono_arr DISCORD_SAMPLE_RATE st)
             (\<lambda>y. Inr (map astype_float32 y))
      else if ENGINE L = Librosa
      then librosa_pitch_shift L (map astype_float32 mono_arr) DISCORD_SAMPLE_RATE st None
      else if \<not> has_scipy L then Inl ImportError
      else
        try_then (py_truediv st (Fin 12)) (\<lambda>y.
        try_then (py_pow2 y) (\<lambda>factor.
        let n = length mono_arr in
        try_then (py_float_of_nat n) (\<lambda>nf.
        try_then (py_truediv nf factor) (\<lambda>q.
        try_then (py_round_float q) (\<lambda>r.
        let new_len = nat (max 1 r) in
        try_then (sg_resample L mono_arr new_len) (\<lambda>res.
        let resampled = map astype_float32 res in
        if new_len \<ge> n then Inr (take n resampled)
        else
          try_then (py_int_truediv n new_len) (\<lambda>d.
          try_then (int_ceil d) (\<lambda>c.
          let repeats = nat (c + 1) in
          Inr (take n (np_tile resampled repeats)))))))))))"

subsection \<open>The numpy steps of \<^verbatim>\<open>process\<close>\<close>

text \<open>\<^verbatim>\<open>np.frombuffer(pcm_bytes, dtype=np.int16)\<close>, little-endian; an odd byte count raises.\<close>

definition int16_le :: "byte \<Rightarrow> byte \<Rightarrow> 16 word" where
  "int16_le lo hi = push_bit 8 (ucast hi) OR ucast lo"

fun frombuffer_int16 :: "pcm \<Rightarrow> py_error + 16 word list" where
  "frombuffer_int16 [] = Inr []"
| "frombuffer_int16 [b] = Inl ValueError"
| "frombuffer_int16 (lo # hi # rest) =
     (case frombuffer_int16 rest of
        Inl e \<Rightarrow> Inl e
      | Inr ws \<Rightarrow> Inr (int16_le lo hi # ws))"

text \<open>The slice \<^verbatim>\<open>a[0::2]\<close>; \<^verbatim>\<open>a[1::2]\<close> is \<open>stride2 (drop 1 a)\<close>.\<close>

fun stride2 :: "'a list \<Rightarrow> 'a list" where
  "stride2 [] = []"
| "stride2 [x] = [x]"
| "stride2 (x # y # xs) = x # stride2 xs"

text \<open>
  Element-wise \<^verbatim>\<open>+\<close> of two one-dimensional arrays with numpy's broadcasting: equal
  lengths add pointwise, a length-1 operand is stretched, anything else raises. It
  is only applied to int16 values divided by 32768, whose sums (at most 17
  significant bits) and halves are exact in binary32; these stay real numbers
  until the mono signal is formed.
\<close>

definition np_add :: "real list \<Rightarrow> real list \<Rightarrow> py_error + real list" where
  "np_add xs ys =
     (if length xs = length ys then Inr (map2 (+) xs ys)
      else if length xs = 1 then Inr (map (\<lambda>y. hd xs + y) ys)
      else if length ys = 1 then Inr (map (\<lambda>x. x + hd ys) xs)
      else Inl ValueError)"

text \<open>Multiplication of two binary32 values.\<close>

fun f32_mul :: "flt \<Rightarrow> flt \<Rightarrow> flt" where
  "f32_mul NaN b = NaN"
| "f32_mul a NaN = NaN"
| "f32_mul (Fin x) (Fin y) = to_f32 (x * y)"
| "f32_mul (Fin x) PInf = (if x = 0 then NaN else if x > 0 then PInf else NInf)"
| "f32_mul (Fin x) NInf = (if x = 0 then NaN else if x > 0 then NInf else PInf)"
| "f32_mul PInf (Fin y) = (if y = 0 then NaN else if y > 0 then PInf else NInf)"
| "f32_mul NInf (Fin y) = (if y = 0 then NaN else if y > 0 then NInf else PInf)"
| "f32_mul PInf PInf = PInf"
| "f32_mul NInf NInf = PInf"
| "f32_mul PInf NInf = NInf"
| "f32_mul NInf PInf = NInf"

text \<open>
  \<^verbatim>\<open>np.clip(x, lo, hi)\<close>, which keeps NaN, and the C cast \<^verbatim>\<open>astype(np.int16)\<close>,
  which truncates towards zero and is undefined on NaN and the infinities.
\<close>

definition np_clip :: "flt \<Rightarrow> real \<Rightarrow> real \<Rightarrow> flt" where
  "np_clip v lo hi =
     (case v of
        Fin x \<Rightarrow> Fin (min (max x lo) hi)
      | PInf \<Rightarrow> Fin hi
      | NInf \<Rightarrow> Fin lo
      | NaN \<Rightarrow> NaN)"

definition astype_int16 :: "libraries \<Rightarrow> flt \<Rightarrow> 16 word" where
  "astype_int16 L v =
     (case v of
        Fin x \<Rightarrow> word_of_int (if x \<ge> 0 then \<lfloor>x\<rfloor> else \<lceil>x\<rceil>)
      | PInf \<Rightarrow> cast_nan_int16 L
      | NInf \<Rightarrow> cast_nan_int16 L
      | NaN \<Rightarrow> cast_nan_int16 L)"

text \<open>\<^verbatim>\<open>np.repeat(a, 2)\<close> and \<^verbatim>\<open>tobytes()\<close> of an int16 array (little-endian).\<close>

definition np_repeat2 :: "'a list \<Rightarrow> 'a list" where
  "np_repeat2 a = concat (map (\<lambda>x. [x, x]) a)"

definition tobytes :: "16 word list \<Rightarrow> pcm" where
  "tobytes a = concat (map (\<lambda>w. [ucast w, ucast (drop_bit 8 w)]) a)"

subsection \<open>\<^verbatim>\<open>VoiceChanger.process\<close>\<close>

definition process :: "libraries \<Rightarrow> VoiceChanger \<Rightarrow> pcm \<Rightarrow> py_error + pcm" where
  "process L c pcm_bytes =
     (let st = semitones c
      in if st = Fin 0 then Inr pcm_bytes
         else
           try_then (frombuffer_int16 pcm_bytes) (\<lambda>ws.
           let arr = map (\<lambda>w. real_of_int (sint w) / 32768) ws in
           try_then (np_add (stride2 arr) (stride2 (drop 1 arr))) (\<lambda>lr.
           let mono_arr = map (\<lambda>x. Fin (x * 0.5)) lr in
           try_then (vc_pitch_shift L mono_arr st) (\<lambda>shifted.
           let out_i16 =
                 map (\<lambda>v. astype_int16 L (np_clip (f32_mul v (Fin 32768)) (- 32768) 32767))
                   shifted;
               stereo = np_repeat2 out_i16
           in Inr (tobytes stereo)))))"

section \<open>VoiceChangerSink (bot.py, lines 80--130)\<close>

definition PROCESS_FRAMES :: nat where
  "PROCESS_FRAMES = 10"

definition chunk_bytes :: nat where
  "chunk_bytes = DISCORD_FRAME_BYTES * PROCESS_FRAMES"

text \<open>
  The voice client is external; of it the sink only uses \<^verbatim>\<open>is_playing()\<close>, kept as
  a flag that a successful \<^verbatim>\<open>play\<close> sets.
\<close>

record VoiceChangerSink =
  changer :: VoiceChanger
  audio_source :: BufferedAudioSource
  user_bufs :: "nat \<rightharpoonup> pcm"
  vc_is_playing :: bool

text \<open>
  The \<^verbatim>\<open>while\<close> loop of \<^verbatim>\<open>write\<close>, on the speaker's buffer and the audio source.
  \<^verbatim>\<open>process\<close> is called with no handler around it, so an exception leaves the
  loop with the window already deleted from the buffer and nothing pushed; the
  third component is that exception.
\<close>

function write_loop ::
  "libraries \<Rightarrow> VoiceChanger \<Rightarrow> pcm \<Rightarrow> BufferedAudioSource
     \<Rightarrow> pcm \<times> BufferedAudioSource \<times> py_error option" where
  "write_loop L c b src =
     (if length b \<ge> chunk_bytes
      then (case process L c (take chunk_bytes b) of
              Inl e \<Rightarrow> (drop chunk_bytes b, src, Some e)
            | Inr processed \<Rightarrow>
                write_loop L c (drop chunk_bytes b) (BufferedAudioSource_push src processed))
      else (b, src, None))"
  by pat_completeness auto
termination
  by (relation "measure (\<lambda>(L, c, b, src). length b)")
    (auto simp: chunk_bytes_def PROCESS_FRAMES_def DISCORD_FRAME_BYTES_def
      DISCORD_FRAME_SAMPLES_def DISCORD_SAMPLE_RATE_def DISCORD_FRAME_MS_def
      DISCORD_CHANNELS_def)

declare write_loop.simps [simp del]

text \<open>
  \<^verbatim>\<open>write\<close>: the sink afterwards and the exception that escaped, if any.
  \<open>play_raises\<close> says whether the external \<^verbatim>\<open>vc.play\<close> raises (it is caught and
  printed).
\<close>

definition VoiceChangerSink_write ::
  "libraries \<Rightarrow> bool \<Rightarrow> VoiceChangerSink \<Rightarrow> pcm \<Rightarrow> nat
     \<Rightarrow> VoiceChangerSink \<times> py_error option" where
  "VoiceChangerSink_write L play_raises k data user =
     (let b0 = (case user_bufs k user of None \<Rightarrow> [] | Some b \<Rightarrow> b);
          b1 = b0 @ data;
          (b2, src, err) = write_loop L (changer k) b1 (audio_source k);
          k' = k\<lparr>audio_source := src, user_bufs := (user_bufs k)(user \<mapsto> b2)\<rparr>
      in case err of
           Some e \<Rightarrow> (k', Some e)
         | None \<Rightarrow>
             if \<not> vc_is_playing k' \<and> \<not> play_raises
             then (k'\<lparr>vc_is_playing := True\<rparr>, None)
             else (k', None))"

definition VoiceChangerSink_init :: "VoiceChanger \<Rightarrow> bool \<Rightarrow> VoiceChangerSink" where
  "VoiceChangerSink_init c playing =
     \<lparr>changer = c, audio_source = BufferedAudioSource_init, user_bufs = Map.empty,
      vc_is_playing = playing\<rparr>"

section \<open>The local-microphone variant (main.py, lines 24--156)\<close>

definition SAMPLE_RATE :: nat where
  "SAMPLE_RATE = 22050"

definition BLOCK_SIZE :: nat where
  "BLOCK_SIZE = 1024"

definition VOLUME_GAIN :: flt where
  "VOLUME_GAIN = Fin 4"

definition pitch_shift_scipy :: "libraries \<Rightarrow> flt list \<Rightarrow> flt \<Rightarrow> py_error + flt list" where
  "pitch_shift_scipy L audio st =
     (if \<not> has_scipy L then Inl ImportError
      else
        try_then (py_truediv st (Fin 12)) (\<lambda>y.
        try_then (py_pow2 y) (\<lambda>factor.
        let n = length audio in
        try_then (py_float_of_nat n) (\<lambda>nf.
        try_then (py_truediv nf factor) (\<lambda>q.
        try_then (py_round_float q) (\<lambda>r.
        let new_len = nat (max 1 r) in
        try_then (sg_resample L audio new_len) (\<lambda>res.
        let resampled = map astype_float32 res in
        if new_len \<ge> n then Inr (take n resampled)
        else
          try_then (py_int_truediv n new_len) (\<lambda>d.
          try_then (int_ceil d) (\<lambda>c.
          let repeats = nat (c + 1) in
          Inr (take n (np_tile resampled repeats)))))))))))"

definition pitch_shift_librosa :: "libraries \<Rightarrow> flt list \<Rightarrow> flt \<Rightarrow> py_error + flt list" where
  "pitch_shift_librosa L audio st =
     librosa_pitch_shift L (map astype_float32 audio) SAMPLE_RATE st (Some (24, BLOCK_SIZE))"

definition pitch_shift_rubberband :: "libraries \<Rightarrow> flt list \<Rightarrow> flt \<Rightarrow> py_error + flt list" where
  "pitch_shift_rubberband L audio st =
     try_then (pyrb_pitch_shift L audio SAMPLE_RATE st) (\<lambda>y. Inr (map astype_float32 y))"

definition pitch_shift :: "libraries \<Rightarrow> flt list \<Rightarrow> flt \<Rightarrow> py_error + flt list" where
  "pitch_shift L audio st =
     (if st = Fin 0 then Inr audio
      else if has_pyrubberband L then pitch_shift_rubberband L audio st
      else if has_librosa L then pitch_shift_librosa L audio st
      else pitch_shift_scipy L audio st)"

text \<open>\<^verbatim>\<open>np.tanh\<close> on a binary32 value, taken to round correctly.\<close>

definition np_tanh :: "flt \<Rightarrow> flt" where
  "np_tanh v =
     (case v of
        Fin x \<Rightarrow> to_f32 (tanh x)
      | PInf \<Rightarrow> Fin 1
      | NInf \<Rightarrow> Fin (- 1)
      | NaN \<Rightarrow> NaN)"

text \<open>
  \<^verbatim>\<open>audio_callback\<close> for the one-channel stream the program opens: \<open>indata\<close> is
  column 0 of the input block, the result is column 0 of \<^verbatim>\<open>outdata\<close>, which has
  \<open>frames\<close> rows. The globals \<^verbatim>\<open>SEMITONE_MAP\<close> and \<^verbatim>\<open>current_mode\<close> and the gain
  are arguments; the gain enters the binary32 product as a binary32 value. A
  missing key is the only exception that escapes.
\<close>

definition audio_callback ::
  "libraries \<Rightarrow> flt \<Rightarrow> (nat \<rightharpoonup> flt) \<Rightarrow> nat \<Rightarrow> flt list \<Rightarrow> nat \<Rightarrow> py_error + flt list" where
  "audio_callback L gain semitone_map current_mode indata frames =
     (case semitone_map current_mode of
        None \<Rightarrow> Inl KeyError
      | Some st \<Rightarrow>
          (let audio = indata;
               processed = (if st \<noteq> Fin 0
                            then (case pitch_shift L audio st of
                                    Inl exc \<Rightarrow> audio
                                  | Inr p \<Rightarrow> p)
                            else audio);
               processed = map (\<lambda>v. f32_mul v (astype_float32 gain)) processed;
               processed = map np_tanh processed;
               copy_len = min (length processed) frames
           in Inr (take copy_len processed @ replicate (frames - copy_len) (Fin 0))))"

section \<open>Vocabulary of the statements\<close>

text \<open>The \<open>i\<close>-th full window of a speaker buffer, counted from the front.\<close>

definition window :: "pcm \<Rightarrow> nat \<Rightarrow> pcm" where
  "window b i = take chunk_bytes (drop (i * chunk_bytes) b)"

text \<open>
  The mono signal of an interleaved stereo int16 array: sample \<open>i\<close> is the mean of
  the left sample \<open>2 * i\<close> and the right sample \<open>2 * i + 1\<close>, each scaled by 1/32768.
\<close>

definition downmix :: "16 word list \<Rightarrow> flt list" where
  "downmix ws =
     map (\<lambda>i. Fin ((real_of_int (sint (ws ! (2 * i))) / 32768
                     + real_of_int (sint (ws ! (2 * i + 1))) / 32768) * 0.5))
       [0..<length ws div 2]"

text \<open>
  Saturation to the signed 16-bit range followed by truncation towards zero, as the
  specification words the conversion back to integers; it says nothing of NaN.
\<close>

definition saturate_int16 :: "flt \<Rightarrow> int option" where
  "saturate_int16 v =
     (case v of
        Fin y \<Rightarrow>
          Some (if y \<ge> 32767 then 32767
                else if y \<le> - 32768 then - 32768
                else if y \<ge> 0 then \<lfloor>y\<rfloor> else \<lceil>y\<rceil>)
      | PInf \<Rightarrow> Some 32767
      | NInf \<Rightarrow> Some (- 32768)
      | NaN \<Rightarrow> None)"

text \<open>A sample within the closed range from -1 to 1; NaN is not.\<close>

definition within_unit :: "flt \<Rightarrow> bool" where
  "within_unit v = (case v of Fin x \<Rightarrow> - 1 \<le> x \<and> x \<le> 1 | PInf \<Rightarrow> False | NInf \<Rightarrow> False | NaN \<Rightarrow> False)"

text \<open>
  Library environments used as concrete inputs. In the first only scipy is present
  and \<^verbatim>\<open>resample\<close> is a sample-and-hold resampler; in the second pyrubberband
  imports but its call raises (its command-line tool is missing); in the third
  pyrubberband returns one sample more than it was given.
\<close>

definition sample_hold :: libraries where
  "sample_hold =
     \<lparr>has_pyrubberband = False, has_librosa = False, has_scipy = True,
      pyrb_pitch_shift = (\<lambda>y sr n_steps. Inl ImportError),
      librosa_pitch_shift = (\<lambda>y sr n_steps kw. Inl ImportError),
      sg_resample = (\<lambda>x num. if x = [] then Inl ValueError
                     else Inr (map (\<lambda>i. x ! (i * length x div num)) [0..<num])),
      cast_nan_int16 = 0\<rparr>"

definition rubberband_cli_missing :: libraries where
  "rubberband_cli_missing =
     \<lparr>has_pyrubberband = True, has_librosa = False, has_scipy = True,
      pyrb_pitch_shift = (\<lambda>y sr n_steps. Inl RuntimeError),
      librosa_pitch_shift = (\<lambda>y sr n_steps kw. Inl ImportError),
      sg_resample = (\<lambda>x num. Inr (replicate num (Fin 0))),
      cast_nan_int16 = 0\<rparr>"


section \<open>Theorems\<close>

subsection \<open>Auxiliary facts\<close>

lemma DISCORD_FRAME_BYTES_eq: "DISCORD_FRAME_BYTES = 3840"
  by (simp add: DISCORD_FRAME_BYTES_def DISCORD_FRAME_SAMPLES_def DISCORD_SAMPLE_RATE_def
      DISCORD_FRAME_MS_def DISCORD_CHANNELS_def)

lemma chunk_bytes_eq: "chunk_bytes = 38400"
  by (simp add: chunk_bytes_def PROCESS_FRAMES_def DISCORD_FRAME_BYTES_eq)

lemma frombuffer_int16_even:
  "even (length p) \<Longrightarrow> \<exists>ws. frombuffer_int16 p = Inr ws \<and> length ws = length p div 2"
  by (induction p rule: frombuffer_int16.induct) auto

lemma frombuffer_int16_odd:
  "odd (length p) \<Longrightarrow> frombuffer_int16 p = Inl ValueError"
  by (induction p rule: frombuffer_int16.induct) (auto split: sum.splits)

lemma length_stride2: "length (stride2 xs) = (length xs + 1) div 2"
  by (induction xs rule: stride2.induct) auto


lemma length_np_repeat2: "length (np_repeat2 a) = 2 * length a"
  by (induction a) (auto simp: np_repeat2_def)

lemma length_tobytes: "length (tobytes a) = 2 * length a"
  by (induction a) (auto simp: tobytes_def)


lemma try_then_Inl [simp]: "try_then (Inl e) f = Inl e"
  by (simp add: try_then_def)

lemma try_then_Inr_left [simp]: "try_then (Inr a) f = f a"
  by (simp add: try_then_def)

lemma py_round_le: "z \<le> of_int N \<Longrightarrow> py_round z \<le> N"
  unfolding py_round_def Let_def by (auto; linarith)

lemma py_round_ge: "of_int N \<le> z \<Longrightarrow> N \<le> py_round z"
  unfolding py_round_def Let_def by (auto; linarith)

lemma py_round_of_int [simp]: "py_round (of_int N) = N"
  unfolding py_round_def Let_def by simp

lemma round_to_pow2:
  assumes "emin \<le> k" and "0 < p"
  shows "round_to p emin (2 powr of_int k) = 2 powr of_int k"
proof -
  have l: "\<lfloor>log 2 \<bar>2 powr real_of_int k\<bar>\<rfloor> = k" by simp
  have e: "max emin k = k" using assms by simp
  have "2 powr real_of_int k / 2 powr (real_of_int k - (real p - 1)) = 2 powr (real p - 1)"
    by (simp add: powr_diff)
  also have "\<dots> = 2 powr real (p - 1)" using assms by simp
  also have "\<dots> = of_int (2 ^ (p - 1))" by (simp add: powr_realpow)
  finally have q: "2 powr real_of_int k / 2 powr (real_of_int k - (real p - 1))
      = of_int (2 ^ (p - 1))" .
  have "of_int (2 ^ (p - 1)) * 2 powr (real_of_int k - (real p - 1)) = 2 powr real_of_int k"
    using q by (simp add: field_simps)
  then show ?thesis
    unfolding round_to_def Let_def l e q py_round_of_int by simp
qed

lemma inverse_ulp_int:
  assumes "e \<le> int p - 1"
  shows "1 / 2 powr (of_int e - (real p - 1)) = of_int (2 ^ nat (int p - 1 - e))"
proof -
  have "1 / 2 powr (of_int e - (real p - 1)) = 2 powr (- (of_int e - (real p - 1)))"
    by (rule powr_minus_divide [symmetric])
  also have "- (of_int e - (real p - 1)) = real (nat (int p - 1 - e))"
    using assms by simp
  also have "2 powr real (nat (int p - 1 - e)) = of_int (2 ^ nat (int p - 1 - e))"
    by (simp add: powr_realpow)
  finally show ?thesis .
qed

lemma round_to_unit:
  assumes x: "\<bar>x\<bar> \<le> 1" and emin: "emin \<le> 0" and p: "0 < p"
  shows "\<bar>round_to p emin x\<bar> \<le> 1"
proof (cases "x = 0")
  case True
  then show ?thesis by (simp add: round_to_def)
next
  case False
  define e where "e = max emin \<lfloor>log 2 \<bar>x\<bar>\<rfloor>"
  define u where "u = 2 powr (of_int e - (real p - 1))"
  define N where "N = (2::int) ^ nat (int p - 1 - e)"
  have "log 2 \<bar>x\<bar> \<le> 0" using x False by simp
  then have "\<lfloor>log 2 \<bar>x\<bar>\<rfloor> \<le> 0" by linarith
  then have e0: "e \<le> 0" using emin by (simp add: e_def)
  then have "e \<le> int p - 1" using p by simp
  then have iu: "1 / u = of_int N" unfolding u_def N_def by (rule inverse_ulp_int)
  have upos: "0 < u" by (simp add: u_def)
  have "\<bar>x\<bar> / u \<le> 1 / u" using x upos by (simp add: divide_right_mono)
  then have ax: "\<bar>x / u\<bar> \<le> of_int N" using iu upos by simp
  have b1: "x / u \<le> of_int N" using ax by linarith
  have "- real_of_int N \<le> x / u" using ax by linarith
  then have b2: "of_int (- N) \<le> x / u" by simp
  from b1 b2 have "py_round (x / u) \<le> N" "- N \<le> py_round (x / u)"
    by (auto intro: py_round_le py_round_ge)
  then have "\<bar>real_of_int (py_round (x / u))\<bar> \<le> of_int N" by linarith
  then have "\<bar>real_of_int (py_round (x / u)) * u\<bar> \<le> of_int N * u"
    using upos by (simp add: abs_mult mult_right_mono)
  also have "of_int N * u = 1" using iu upos by (simp add: field_simps)
  finally show ?thesis
    using False by (simp add: round_to_def Let_def e_def u_def)
qed



lemma to_float_cases:
  "to_float p emin emax x = Fin (round_to p emin x)
   \<or> to_float p emin emax x = PInf \<or> to_float p emin emax x = NInf"
  by (simp add: to_float_def Let_def)



lemma vc_pitch_shift_scipy_eq:
  "ENGINE L = Scipy \<Longrightarrow> vc_pitch_shift L xs st = pitch_shift_scipy L xs st"
  by (simp add: vc_pitch_shift_def pitch_shift_scipy_def)

lemma write_loop_unfold:
  "write_loop L c b src =
     (if length b \<ge> chunk_bytes
      then (case process L c (take chunk_bytes b) of
              Inl e \<Rightarrow> (drop chunk_bytes b, src, Some e)
            | Inr processed \<Rightarrow>
                write_loop L c (drop chunk_bytes b) (BufferedAudioSource_push src processed))
      else (b, src, None))"
  by (rule write_loop.simps)

lemma window_drop: "window (drop chunk_bytes b) i = window b (Suc i)"
  by (simp add: window_def add.commute)

lemma write_loop_dispatch:
  "length b = K * chunk_bytes + r \<Longrightarrow> r < chunk_bytes
   \<Longrightarrow> (\<And>i. i < K \<Longrightarrow> process L c (window b i) = Inr (f i))
   \<Longrightarrow> write_loop L c b src =
        (drop (K * chunk_bytes) b,
         src\<lparr>buf := buf src @ concat (map f [0..<K])\<rparr>, None)"
proof (induction K arbitrary: b src f)
  case 0
  then show ?case by (subst write_loop_unfold) simp
next
  case (Suc K)
  have len: "length b \<ge> chunk_bytes" using Suc.prems(1) by simp
  have p0: "process L c (take chunk_bytes b) = Inr (f 0)"
    using Suc.prems(3) [of 0] by (simp add: window_def)
  have rest: "write_loop L c (drop chunk_bytes b) (BufferedAudioSource_push src (f 0)) =
        (drop (K * chunk_bytes) (drop chunk_bytes b),
         (BufferedAudioSource_push src (f 0))
           \<lparr>buf := buf (BufferedAudioSource_push src (f 0)) @ concat (map (\<lambda>i. f (Suc i)) [0..<K])\<rparr>,
         None)"
  proof (rule Suc.IH)
    show "length (drop chunk_bytes b) = K * chunk_bytes + r"
      using Suc.prems(1) by simp
    show "r < chunk_bytes" by (rule Suc.prems(2))
    show "process L c (window (drop chunk_bytes b) i) = Inr (f (Suc i))" if "i < K" for i
      using Suc.prems(3) [of "Suc i"] that by (simp add: window_drop)
  qed
  have maps: "map f [0..<Suc K] = f 0 # map (\<lambda>i. f (Suc i)) [0..<K]"
    by (simp add: upt_conv_Cons map_Suc_upt [symmetric] del: upt_Suc)
  show ?case
    by (subst write_loop_unfold)
      (simp add: len p0 rest [unfolded BufferedAudioSource_push_def] maps
        BufferedAudioSource_push_def add.commute del: upt_Suc)
qed


lemma nth_stride2: "i < length (stride2 xs) \<Longrightarrow> stride2 xs ! i = xs ! (2 * i)"
proof (induction xs arbitrary: i rule: stride2.induct)
  case 1
  then show ?case by simp
next
  case (2 x)
  then show ?case by simp
next
  case (3 x y xs)
  then show ?case by (cases i) auto
qed

lemma np_add_stride2:
  assumes "even (length arr)"
  shows "np_add (stride2 arr) (stride2 (drop 1 arr)) =
         Inr (map (\<lambda>i. arr ! (2 * i) + arr ! (2 * i + 1)) [0..<length arr div 2])"
proof -
  have l1: "length (stride2 arr) = length arr div 2"
    using assms by (auto simp: length_stride2 elim!: evenE)
  have l2: "length (stride2 (drop 1 arr)) = length arr div 2"
    using assms by (cases arr) (auto simp: length_stride2 elim!: evenE)
  note l2 = l2 l2 [simplified]
  have "map2 (+) (stride2 arr) (stride2 (drop 1 arr)) =
        map (\<lambda>i. arr ! (2 * i) + arr ! (2 * i + 1)) [0..<length arr div 2]"
  proof (rule nth_equalityI)
    show "length (map2 (+) (stride2 arr) (stride2 (drop 1 arr))) =
          length (map (\<lambda>i. arr ! (2 * i) + arr ! (2 * i + 1)) [0..<length arr div 2])"
      by (simp add: l1 l2)
  next
    fix i assume "i < length (map2 (+) (stride2 arr) (stride2 (drop 1 arr)))"
    then have i: "i < length arr div 2" by (simp add: l1 l2)
    then have "2 * i + 1 < length arr" using assms by (auto elim!: evenE)
    then show "map2 (+) (stride2 arr) (stride2 (drop 1 arr)) ! i =
          map (\<lambda>i. arr ! (2 * i) + arr ! (2 * i + 1)) [0..<length arr div 2] ! i"
      using i by (simp add: l1 l2 nth_stride2)
  qed
  then show ?thesis by (simp add: np_add_def l1 l2)
qed

lemma process_stereo:
  assumes st: "semitones c \<noteq> Fin 0" and wf: "length pcm mod 4 = 0"
  shows "\<exists>ws. frombuffer_int16 pcm = Inr ws \<and> length ws = length pcm div 2
          \<and> process L c pcm =
              (case vc_pitch_shift L (downmix ws) (semitones c) of
                 Inl e \<Rightarrow> Inl e
               | Inr shifted \<Rightarrow>
                   Inr (tobytes (np_repeat2
                     (map (\<lambda>v. astype_int16 L (np_clip (f32_mul v (Fin 32768)) (- 32768) 32767))
                        shifted))))"
proof -
  have ev: "even (length pcm)" using wf by presburger
  then obtain ws where ws: "frombuffer_int16 pcm = Inr ws" and lw: "length ws = length pcm div 2"
    using frombuffer_int16_even by blast
  have evw: "even (length ws)" using lw wf by presburger
  let ?arr = "map (\<lambda>w. real_of_int (sint w) / 32768) ws"
  have add: "np_add (stride2 ?arr) (stride2 (drop 1 ?arr)) =
        Inr (map (\<lambda>i. ?arr ! (2 * i) + ?arr ! (2 * i + 1)) [0..<length ws div 2])"
    using np_add_stride2 [of ?arr] evw by simp
  have dm: "map (\<lambda>x. Fin (x * 0.5))
              (map (\<lambda>i. ?arr ! (2 * i) + ?arr ! (2 * i + 1)) [0..<length ws div 2])
        = downmix ws"
    unfolding downmix_def using evw by (auto elim!: evenE)
  show ?thesis
    using st ws lw add dm by (simp add: process_def Let_def try_then_def split: sum.splits)
qed



lemma write_no_error:
  assumes "write_loop L (changer k) ((case user_bufs k user of None \<Rightarrow> [] | Some b \<Rightarrow> b) @ data)
             (audio_source k) = (b2, src, None)"
  shows "VoiceChangerSink_write L play_raises k data user =
           (k\<lparr>audio_source := src, user_bufs := (user_bufs k)(user \<mapsto> b2),
              vc_is_playing := vc_is_playing k \<or> \<not> play_raises\<rparr>, None)"
  using assms by (cases k) (auto simp: VoiceChangerSink_write_def Let_def)

lemma write_dispatch:
  assumes len: "length ((case user_bufs k user of None \<Rightarrow> [] | Some b \<Rightarrow> b) @ data)
                  = K * 38400 + r"
    and r: "r < 38400"
    and ok: "\<forall>i<K. process L (changer k)
                   (window ((case user_bufs k user of None \<Rightarrow> [] | Some b \<Rightarrow> b) @ data) i)
                 = Inr (f i)"
  shows "\<exists>k'. VoiceChangerSink_write L play_raises k data user = (k', None)
            \<and> user_bufs k' user
                = Some (drop (K * 38400) ((case user_bufs k user of None \<Rightarrow> [] | Some b \<Rightarrow> b) @ data))
            \<and> length (the (user_bufs k' user)) = r
            \<and> buf (audio_source k') = buf (audio_source k) @ concat (map f [0..<K])
            \<and> changer k' = changer k
            \<and> (\<forall>u. u \<noteq> user \<longrightarrow> user_bufs k' u = user_bufs k u)"
proof -
  have "write_loop L (changer k)
            ((case user_bufs k user of None \<Rightarrow> [] | Some b \<Rightarrow> b) @ data) (audio_source k) =
        (drop (K * chunk_bytes) ((case user_bufs k user of None \<Rightarrow> [] | Some b \<Rightarrow> b) @ data),
         (audio_source k)\<lparr>buf := buf (audio_source k) @ concat (map f [0..<K])\<rparr>, None)"
    by (rule write_loop_dispatch) (use len r ok in \<open>simp_all add: chunk_bytes_eq\<close>)
  from write_no_error [OF this, of play_raises] show ?thesis
    using len by (simp add: chunk_bytes_eq)
qed

lemma sint_astype_int16:
  "case saturate_int16 v of
     Some k \<Rightarrow> sint (astype_int16 L (np_clip v (- 32768) 32767)) = k
         \<and> - 32768 \<le> k \<and> k \<le> 32767
   | None \<Rightarrow> astype_int16 L (np_clip v (- 32768) 32767) = cast_nan_int16 L"
proof (cases v)
  case (Fin y)
  define k :: int where "k = (if y \<ge> 32767 then 32767
                else if y \<le> - 32768 then - 32768
                else if y \<ge> 0 then \<lfloor>y\<rfloor> else \<lceil>y\<rceil>)"
  have range: "- 32768 \<le> k \<and> k \<le> 32767"
    unfolding k_def by (auto simp: le_floor_iff ceiling_le_iff floor_le_iff le_ceiling_iff)
  have t: "(if min (max y (- 32768)) 32767 \<ge> 0 then \<lfloor>min (max y (- 32768)) 32767\<rfloor>
      else \<lceil>min (max y (- 32768)) 32767\<rceil>) = k"
    unfolding k_def by (auto simp: min_def max_def)
  have sk: "sint (word_of_int k :: 16 word) = k"
    using range by (simp add: sint_sbintrunc' signed_take_bit_int_eq_self)
  have "astype_int16 L (np_clip (Fin y) (- 32768) 32767) =
      word_of_int (if min (max y (- 32768)) 32767 \<ge> 0 then \<lfloor>min (max y (- 32768)) 32767\<rfloor>
        else \<lceil>min (max y (- 32768)) 32767\<rceil>)"
    by (simp only: astype_int16_def np_clip_def flt.case)
  then have a: "astype_int16 L (np_clip (Fin y) (- 32768) 32767) = word_of_int k"
    unfolding t .
  have s: "saturate_int16 (Fin y) = Some k"
    by (simp only: saturate_int16_def flt.case k_def)
  show ?thesis
    unfolding Fin s a using sk range by simp
next
  case PInf
  then show ?thesis by (simp add: saturate_int16_def astype_int16_def np_clip_def)
next
  case NInf
  then show ?thesis by (simp add: saturate_int16_def astype_int16_def np_clip_def)
next
  case NaN
  then show ?thesis by (simp add: saturate_int16_def astype_int16_def np_clip_def)
qed

lemma int16_le_roundtrip: "int16_le (ucast w) (ucast (drop_bit 8 w)) = w"
  unfolding int16_le_def
  by (rule bit_word_eqI) (auto simp: bit_simps)

lemma nth_concat_quads:
  assumes "\<And>w. length (g w) = 4" and "i < length ws" and "j < 4"
  shows "concat (map g ws) ! (4 * i + j) = g (ws ! i) ! j"
  using assms(2)
proof (induction ws arbitrary: i)
  case Nil
  then show ?case by simp
next
  case (Cons w ws)
  show ?case
  proof (cases i)
    case 0
    with assms(1,3) show ?thesis by (simp add: nth_append)
  next
    case (Suc i')
    with Cons.prems have "i' < length ws" by simp
    then have "concat (map g ws) ! (4 * i' + j) = g (ws ! i') ! j" by (rule Cons.IH)
    with Suc assms(1) show ?thesis by (simp add: nth_append)
  qed
qed

lemma tobytes_np_repeat2:
  "tobytes (np_repeat2 ws) =
     concat (map (\<lambda>w. [ucast w, ucast (drop_bit 8 w), ucast w, ucast (drop_bit 8 w)]) ws)"
  by (induction ws) (simp_all add: tobytes_def np_repeat2_def)

lemma stereo_bytes_nth:
  assumes "i < length ws"
  shows "tobytes (np_repeat2 ws) ! (4 * i) = ucast (ws ! i)"
    and "tobytes (np_repeat2 ws) ! (4 * i + 1) = ucast (drop_bit 8 (ws ! i))"
    and "tobytes (np_repeat2 ws) ! (4 * i + 2) = ucast (ws ! i)"
    and "tobytes (np_repeat2 ws) ! (4 * i + 3) = ucast (drop_bit 8 (ws ! i))"
  using nth_concat_quads [where g = "\<lambda>w. [ucast w, ucast (drop_bit 8 w), ucast w, ucast (drop_bit 8 w) :: byte]"
      and ws = ws and i = i and j = 0]
    nth_concat_quads [where g = "\<lambda>w. [ucast w, ucast (drop_bit 8 w), ucast w, ucast (drop_bit 8 w) :: byte]"
      and ws = ws and i = i and j = 1]
    nth_concat_quads [where g = "\<lambda>w. [ucast w, ucast (drop_bit 8 w), ucast w, ucast (drop_bit 8 w) :: byte]"
      and ws = ws and i = i and j = 2]
    nth_concat_quads [where g = "\<lambda>w. [ucast w, ucast (drop_bit 8 w), ucast w, ucast (drop_bit 8 w) :: byte]"
      and ws = ws and i = i and j = 3]
    assms
  by (simp_all add: tobytes_np_repeat2 numeral_3_eq_3)

lemma process_rubberband_cli_missing:
  "process rubberband_cli_missing (set_high VoiceChanger_init) (replicate 38400 0) = Inl RuntimeError"
proof -
  have st: "semitones (set_high VoiceChanger_init) \<noteq> Fin 0"
    by (simp add: semitones_def set_high_def VoiceChanger_init_def FIXED_def)
  have wf: "length (replicate 38400 (0::byte)) mod 4 = 0" by simp
  have "vc_pitch_shift rubberband_cli_missing xs s = Inl RuntimeError" for xs s
    by (simp add: vc_pitch_shift_def ENGINE_def rubberband_cli_missing_def)
  with process_stereo [OF st wf, of rubberband_cli_missing] show ?thesis by auto
qed

lemma max_finite_f32_ge_1: "1 \<le> max_finite 24 127"
  by (simp add: max_finite_def powr_neg_numeral)

lemma np_tanh_within_unit: "np_tanh v \<noteq> NaN \<Longrightarrow> within_unit (np_tanh v)"
proof (cases v)
  case (Fin x)
  have "\<bar>tanh x\<bar> \<le> 1"
    using tanh_real_lt_1 [of x] tanh_real_gt_neg1 [of x] by linarith
  then have "\<bar>round_to 24 (- 126) (tanh x)\<bar> \<le> 1"
    by (rule round_to_unit) simp_all
  with max_finite_f32_ge_1 Fin show ?thesis
    by (simp add: np_tanh_def to_f32_def to_float_def Let_def within_unit_def abs_le_iff)
qed (simp_all add: np_tanh_def within_unit_def)

lemma np_tanh_NaN: "np_tanh v = NaN \<longleftrightarrow> v = NaN"
proof (cases v)
  case (Fin x)
  have "\<bar>tanh x\<bar> \<le> 1"
    using tanh_real_lt_1 [of x] tanh_real_gt_neg1 [of x] by linarith
  then have "\<bar>round_to 24 (- 126) (tanh x)\<bar> \<le> 1"
    by (rule round_to_unit) simp_all
  with max_finite_f32_ge_1 Fin show ?thesis
    by (simp add: np_tanh_def to_f32_def to_float_def Let_def)
qed (simp_all add: np_tanh_def)

lemma to_float_pow2:
  assumes "emin \<le> k" and "k \<le> emax" and "0 < p"
  shows "to_float p emin emax (2 powr of_int k) = Fin (2 powr of_int k)"
proof -
  have r: "round_to p emin (2 powr of_int k) = 2 powr of_int k"
    using assms(1,3) by (rule round_to_pow2)
  have "2 powr (1 - real p) \<le> 2 powr 0" using assms(3) by (intro powr_mono) simp_all
  then have "1 \<le> 2 - 2 powr (1 - real p)" by simp
  moreover have "2 powr real_of_int k \<le> 2 powr real_of_int emax"
    using assms(2) by (intro powr_mono) simp_all
  ultimately have "1 * 2 powr real_of_int k \<le> (2 - 2 powr (1 - real p)) * 2 powr real_of_int emax"
    by (intro mult_mono) simp_all
  then have le: "2 powr real_of_int k \<le> max_finite p emax" by (simp add: max_finite_def)
  have "0 < 2 powr real_of_int k" by simp
  with le have "\<not> 2 powr real_of_int k < - max_finite p emax" by linarith
  with le show ?thesis by (simp add: to_float_def Let_def r)
qed

lemma to_float_0: "to_float p emin emax 0 = Fin 0"
proof -
  have "0 \<le> 2 - 2 powr (1 - real p)"
  proof (cases "p = 0")
    case True
    then show ?thesis by simp
  next
    case False
    then have "2 powr (1 - real p) \<le> 2 powr 0" by (intro powr_mono) simp_all
    then show ?thesis by simp
  qed
  then have "0 \<le> max_finite p emax" by (simp add: max_finite_def)
  then show ?thesis by (simp add: to_float_def Let_def round_to_def)
qed

lemma to_f64_values: "to_f64 1 = Fin 1" "to_f64 2 = Fin 2" "to_f64 0 = Fin 0"
  using to_float_pow2 [of "- 1022" 0 1023 53] to_float_pow2 [of "- 1022" 1 1023 53]
  by (simp_all add: to_f64_def to_float_0)

lemma to_f32_values:
  "to_f32 0 = Fin 0" "to_f32 4 = Fin 4" "to_f32 256 = Fin 256"
  "to_f32 (1 / 128) = Fin (1 / 128)" "to_f32 (1 / 32) = Fin (1 / 32)"
  using to_float_pow2 [of "- 126" 2 127 24] to_float_pow2 [of "- 126" 8 127 24]
    to_float_pow2 [of "- 126" "- 7" 127 24] to_float_pow2 [of "- 126" "- 5" 127 24]
  by (simp_all add: to_f32_def to_float_0 powr_neg_numeral)

lemma to_f32_not_NaN: "to_f32 x \<noteq> NaN"
  by (simp add: to_f32_def to_float_def Let_def)

lemma f32_mul_gain_NaN: "f32_mul v (Fin 4) = NaN \<longleftrightarrow> v = NaN"
  by (cases v) (simp_all add: to_f32_not_NaN)

subsection \<open>The claims\<close>

text \<open>
  Claim C1. For every buffer state, \<^verbatim>\<open>read\<close> returns exactly one frame of 3840
  bytes: with at least 3840 bytes buffered the frame is the first 3840 bytes and
  they are removed (frame followed by the remaining buffer is the old buffer);
  otherwise the frame is 3840 zero bytes and the buffer is unchanged. When exactly
  two frames of data have been pushed into an empty source, two reads return the
  data in order, the buffered length is 0 after the second read, and the third
  read returns an all-zero frame.
\<close>

theorem read_frame_exact:
  "length (fst (BufferedAudioSource_read s)) = 3840
   \<and> (if 3840 \<le> length (buf s)
      then fst (BufferedAudioSource_read s) = take 3840 (buf s)
         \<and> buf (snd (BufferedAudioSource_read s)) = drop 3840 (buf s)
         \<and> fst (BufferedAudioSource_read s) @ buf (snd (BufferedAudioSource_read s)) = buf s
      else fst (BufferedAudioSource_read s) = replicate 3840 0
         \<and> snd (BufferedAudioSource_read s) = s)
   \<and> (length d = 2 * 3840 \<longrightarrow>
       (let s0 = BufferedAudioSource_push BufferedAudioSource_init d;
            r1 = BufferedAudioSource_read s0;
            r2 = BufferedAudioSource_read (snd r1);
            r3 = BufferedAudioSource_read (snd r2)
        in fst r1 = take 3840 d \<and> fst r2 = drop 3840 d \<and> fst r1 @ fst r2 = d
           \<and> length (buf (snd r2)) = 0
           \<and> fst r3 = replicate 3840 0 \<and> snd r3 = snd r2))"
  by (auto simp: BufferedAudioSource_read_def BufferedAudioSource_push_def
      BufferedAudioSource_init_def DISCORD_FRAME_BYTES_eq Let_def)

theorem read_frame_exact_witness:
  "length (replicate 3840 (1::byte) @ replicate 3840 2) = 2 * 3840
   \<and> (let s0 = BufferedAudioSource_push BufferedAudioSource_init
                 (replicate 3840 (1::byte) @ replicate 3840 2);
          r1 = BufferedAudioSource_read s0;
          r2 = BufferedAudioSource_read (snd r1);
          r3 = BufferedAudioSource_read (snd r2)
      in fst r1 = replicate 3840 1 \<and> fst r2 = replicate 3840 2
         \<and> length (buf (snd r2)) = 0
         \<and> fst r3 = replicate 3840 0)"
  using read_frame_exact [of "\<lparr>buf = []\<rparr>" "replicate 3840 (1::byte) @ replicate 3840 2"]
  by (simp add: Let_def)

text \<open>
  Claim C6. The mode controller starts in mode \<^verbatim>\<open>normal\<close> with shift 0. After any
  sequence of mode-set operations, \<^verbatim>\<open>set_high\<close> makes the queried shift +6,
  \<^verbatim>\<open>set_low\<close> makes it -6, \<^verbatim>\<open>set_gender(True)\<close> makes it +10 and
  \<^verbatim>\<open>set_gender(False)\<close> makes it -10.
\<close>

theorem mode_controller_shifts:
  "mode VoiceChanger_init = ''normal'' \<and> semitones VoiceChanger_init = Fin 0
   \<and> semitones (set_high (run_mode_ops ops)) = Fin 6
   \<and> semitones (set_low (run_mode_ops ops)) = Fin (- 6)
   \<and> semitones (set_gender True (run_mode_ops ops)) = Fin 10
   \<and> semitones (set_gender False (run_mode_ops ops)) = Fin (- 10)
   \<and> semitones (set_normal (run_mode_ops ops)) = Fin 0"
  by (simp add: VoiceChanger_init_def semitones_def FIXED_def set_high_def set_low_def
      set_gender_def set_normal_def)

text \<open>
  Claim C2. When the active semitone shift is 0, \<^verbatim>\<open>process\<close> returns its input
  byte string itself, whatever the bytes are and whatever the libraries do.
\<close>

theorem process_identity: "semitones c = Fin 0 \<Longrightarrow> process L c x = Inr x"
  by (simp add: process_def)

theorem process_identity_witness:
  "semitones VoiceChanger_init = Fin 0
   \<and> process rubberband_cli_missing VoiceChanger_init [1, 2, 3] = Inr [1, 2, 3]"
  using process_identity [of VoiceChanger_init rubberband_cli_missing "[1, 2, 3]"]
  by (simp add: semitones_def VoiceChanger_init_def FIXED_def)

text \<open>
  Claim C9. When the mode field holds a string outside normal, high, low, gender
  and custom, \<^verbatim>\<open>semitones\<close> is 0 and \<^verbatim>\<open>process\<close> returns its input unchanged.
\<close>

theorem unknown_mode_is_passthrough:
  "mode c \<notin> {''normal'', ''high'', ''low'', ''gender'', ''custom''}
   \<Longrightarrow> semitones c = Fin 0 \<and> process L c x = Inr x"
  by (simp add: process_def semitones_def FIXED_def)

theorem unknown_mode_is_passthrough_witness:
  "''robot'' \<notin> {''normal'', ''high'', ''low'', ''gender'', ''custom''}
   \<and> semitones \<lparr>mode = ''robot'', gender_st = Fin 10, custom_st = Fin 7\<rparr> = Fin 0
   \<and> process rubberband_cli_missing \<lparr>mode = ''robot'', gender_st = Fin 10, custom_st = Fin 7\<rparr>
         [1, 2, 3, 4] = Inr [1, 2, 3, 4]"
  using unknown_mode_is_passthrough
    [of "\<lparr>mode = ''robot'', gender_st = Fin 10, custom_st = Fin 7\<rparr>"
       rubberband_cli_missing "[1, 2, 3, 4]"]
  by simp

text \<open>
  Claim C3. The claim is that an exception of the selected pitch-shift algorithm
  is caught: the original window is returned and nothing reaches the caller. The
  statement below evaluates the code where pyrubberband raises: in mode
  \<^verbatim>\<open>high\<close>, \<^verbatim>\<open>process\<close> on a window of 38400 zero bytes raises that exception, and
  \<^verbatim>\<open>write\<close> given the same window raises it too, with the window already removed
  from the speaker's buffer and nothing pushed to the audio source. Only
  \<^verbatim>\<open>audio_callback\<close> of main.py falls back to the unshifted block.
\<close>

theorem backend_error_escapes_process:
  "process rubberband_cli_missing (set_high VoiceChanger_init) (replicate 38400 0)
     = Inl RuntimeError
   \<and> VoiceChangerSink_write rubberband_cli_missing False
        (VoiceChangerSink_init (set_high VoiceChanger_init) False) (replicate 38400 0) 1
     = (\<lparr>changer = set_high VoiceChanger_init, audio_source = \<lparr>buf = []\<rparr>,
         user_bufs = [1 \<mapsto> []], vc_is_playing = False\<rparr>, Some RuntimeError)
   \<and> audio_callback rubberband_cli_missing VOLUME_GAIN [1 \<mapsto> Fin 6] 1 [Fin 0, Fin (1 / 2)] 2
     = Inr (map (\<lambda>v. np_tanh (f32_mul v (astype_float32 VOLUME_GAIN))) [Fin 0, Fin (1 / 2)])"
proof -
  have w: "write_loop rubberband_cli_missing (set_high VoiceChanger_init) (replicate 38400 0)
             \<lparr>buf = []\<rparr>
     = ([], \<lparr>buf = []\<rparr>, Some RuntimeError)"
    by (subst write_loop_unfold) (simp add: chunk_bytes_eq process_rubberband_cli_missing)
  have a: "pitch_shift rubberband_cli_missing xs (Fin 6) = Inl RuntimeError" for xs
    by (simp add: pitch_shift_def pitch_shift_rubberband_def rubberband_cli_missing_def)
  show ?thesis
    by (simp add: process_rubberband_cli_missing VoiceChangerSink_write_def
        VoiceChangerSink_init_def BufferedAudioSource_init_def w audio_callback_def a)
qed

text \<open>
  Claim C4. The claim is that a speaker buffer holding \<open>K * 38400 + r\<close> bytes
  always has its \<open>K\<close> windows dispatched and keeps \<open>r\<close> bytes. The statement
  below evaluates \<^verbatim>\<open>write\<close> on 76805 bytes (\<open>K = 2\<close>, \<open>r = 5\<close>) where pyrubberband
  raises: in mode \<^verbatim>\<open>high\<close> the exception of the first window leaves the loop, so
  nothing is pushed and 38405 bytes stay buffered; in mode \<^verbatim>\<open>normal\<close> the same
  call pushes both windows and keeps 5 bytes.
\<close>

theorem backend_error_stops_dispatch:
  "length (replicate 76805 (0::byte)) = 2 * 38400 + 5
   \<and> VoiceChangerSink_write rubberband_cli_missing False
        (VoiceChangerSink_init (set_high VoiceChanger_init) False) (replicate 76805 0) 1
     = (\<lparr>changer = set_high VoiceChanger_init, audio_source = \<lparr>buf = []\<rparr>,
         user_bufs = [1 \<mapsto> replicate 38405 0], vc_is_playing = False\<rparr>, Some RuntimeError)
   \<and> VoiceChangerSink_write rubberband_cli_missing False
        (VoiceChangerSink_init VoiceChanger_init False) (replicate 76805 0) 1
     = (\<lparr>changer = VoiceChanger_init, audio_source = \<lparr>buf = replicate 76800 0\<rparr>,
         user_bufs = [1 \<mapsto> replicate 5 0], vc_is_playing = True\<rparr>, None)"
proof -
  have w: "write_loop rubberband_cli_missing (set_high VoiceChanger_init) (replicate 76805 0)
             \<lparr>buf = []\<rparr>
     = (replicate 38405 0, \<lparr>buf = []\<rparr>, Some RuntimeError)"
    by (subst write_loop_unfold) (simp add: chunk_bytes_eq process_rubberband_cli_missing)
  have p: "process rubberband_cli_missing VoiceChanger_init x = Inr x" for x
    by (simp add: process_def semitones_def VoiceChanger_init_def FIXED_def)
  have u: "concat (map (\<lambda>i. replicate 38400 (0::byte)) [0..<2]) = replicate 76800 0"
    by (simp add: numeral_2_eq_2 replicate_add [symmetric])
  have n: "write_loop rubberband_cli_missing VoiceChanger_init (replicate 76805 0) \<lparr>buf = []\<rparr>
     = (replicate 5 0, \<lparr>buf = replicate 76800 0\<rparr>, None)"
    using write_loop_dispatch
      [of "replicate 76805 0" 2 5 rubberband_cli_missing VoiceChanger_init
         "\<lambda>i. replicate 38400 0" "\<lparr>buf = []\<rparr>"]
    by (simp add: p window_def chunk_bytes_eq u)
  show ?thesis
    by (simp add: VoiceChangerSink_write_def VoiceChangerSink_init_def
        BufferedAudioSource_init_def w n)
qed




text \<open>
  Claim C7. For a stereo chunk and a nonzero shift, whenever \<^verbatim>\<open>process\<close> returns:
  the pitch-shift algorithm was given the mean of the two channels, every output
  sample is the shifted sample times 32768 saturated to the range from -32768 to
  32767 (for a NaN sample, which saturation does not cover, it is whatever the
  platform's cast gives), and in every output frame the right channel's two bytes
  equal the left channel's.
\<close>

theorem stereo_transform_shape:
  assumes st: "semitones c \<noteq> Fin 0" and wf: "length pcm mod 4 = 0"
    and pr: "process L c pcm = Inr out"
  shows "\<exists>ws shifted.
           frombuffer_int16 pcm = Inr ws
         \<and> length (downmix ws) = length pcm div 4
         \<and> vc_pitch_shift L (downmix ws) (semitones c) = Inr shifted
         \<and> length out = 4 * length shifted
         \<and> (\<forall>i<length shifted.
               (case saturate_int16 (f32_mul (shifted ! i) (Fin 32768)) of
                  Some k \<Rightarrow> sint (int16_le (out ! (4 * i)) (out ! (4 * i + 1))) = k
                | None \<Rightarrow> int16_le (out ! (4 * i)) (out ! (4 * i + 1)) = cast_nan_int16 L)
             \<and> - 32768 \<le> sint (int16_le (out ! (4 * i)) (out ! (4 * i + 1)))
             \<and> sint (int16_le (out ! (4 * i)) (out ! (4 * i + 1))) \<le> 32767
             \<and> out ! (4 * i + 2) = out ! (4 * i)
             \<and> out ! (4 * i + 3) = out ! (4 * i + 1))"
proof -
  from process_stereo [OF st wf, of L] obtain ws
    where fb: "frombuffer_int16 pcm = Inr ws"
      and lw: "length ws = length pcm div 2"
      and eq: "process L c pcm =
              (case vc_pitch_shift L (downmix ws) (semitones c) of
                 Inl e \<Rightarrow> Inl e
               | Inr shifted \<Rightarrow>
                   Inr (tobytes (np_repeat2
                     (map (\<lambda>v. astype_int16 L (np_clip (f32_mul v (Fin 32768)) (- 32768) 32767))
                        shifted))))"
    by blast
  from pr eq obtain shifted
    where sh: "vc_pitch_shift L (downmix ws) (semitones c) = Inr shifted"
      and out: "out = tobytes (np_repeat2
                   (map (\<lambda>v. astype_int16 L (np_clip (f32_mul v (Fin 32768)) (- 32768) 32767))
                      shifted))"
    by (cases "vc_pitch_shift L (downmix ws) (semitones c)") auto
  let ?q = "map (\<lambda>v. astype_int16 L (np_clip (f32_mul v (Fin 32768)) (- 32768) 32767)) shifted"
  have ld: "length (downmix ws) = length pcm div 4"
    using lw wf by (simp add: downmix_def)
  have lo: "length out = 4 * length shifted"
    by (simp add: out length_tobytes length_np_repeat2)
  have samples: "(case saturate_int16 (f32_mul (shifted ! i) (Fin 32768)) of
                  Some k \<Rightarrow> sint (int16_le (out ! (4 * i)) (out ! (4 * i + 1))) = k
                | None \<Rightarrow> int16_le (out ! (4 * i)) (out ! (4 * i + 1)) = cast_nan_int16 L)
             \<and> - 32768 \<le> sint (int16_le (out ! (4 * i)) (out ! (4 * i + 1)))
             \<and> sint (int16_le (out ! (4 * i)) (out ! (4 * i + 1))) \<le> 32767
             \<and> out ! (4 * i + 2) = out ! (4 * i)
             \<and> out ! (4 * i + 3) = out ! (4 * i + 1)" if i: "i < length shifted" for i
  proof -
    from i have iq: "i < length ?q" by simp
    have qi: "?q ! i = astype_int16 L (np_clip (f32_mul (shifted ! i) (Fin 32768)) (- 32768) 32767)"
      using i by simp
    have b0: "out ! (4 * i) = ucast (?q ! i)"
      and b1: "out ! (4 * i + 1) = ucast (drop_bit 8 (?q ! i))"
      and b2: "out ! (4 * i + 2) = ucast (?q ! i)"
      and b3: "out ! (4 * i + 3) = ucast (drop_bit 8 (?q ! i))"
      unfolding out by (rule stereo_bytes_nth [OF iq])+
    have w: "int16_le (out ! (4 * i)) (out ! (4 * i + 1))
        = astype_int16 L (np_clip (f32_mul (shifted ! i) (Fin 32768)) (- 32768) 32767)"
      unfolding b0 b1 int16_le_roundtrip qi ..
    have v: "case saturate_int16 (f32_mul (shifted ! i) (Fin 32768)) of
                  Some k \<Rightarrow> sint (int16_le (out ! (4 * i)) (out ! (4 * i + 1))) = k
                     \<and> - 32768 \<le> k \<and> k \<le> 32767
                | None \<Rightarrow> int16_le (out ! (4 * i)) (out ! (4 * i + 1)) = cast_nan_int16 L"
      unfolding w by (rule sint_astype_int16)
    have r: "- 32768 \<le> sint (int16_le (out ! (4 * i)) (out ! (4 * i + 1)))
        \<and> sint (int16_le (out ! (4 * i)) (out ! (4 * i + 1))) \<le> 32767"
      using sint_ge [of "int16_le (out ! (4 * i)) (out ! (4 * i + 1))"]
        sint_lt [of "int16_le (out ! (4 * i)) (out ! (4 * i + 1))"]
      by simp
    from v r b0 b1 b2 b3 show ?thesis
      by (auto split: option.splits)
  qed
  from fb ld sh lo samples show ?thesis by blast
qed

theorem stereo_transform_shape_witness:
  "semitones \<lparr>mode = ''custom'', gender_st = Fin 10, custom_st = Fin 12\<rparr> \<noteq> Fin 0
   \<and> length [0, 1, 0, 1, 0, 2, 0, 2 :: byte] mod 4 = 0
   \<and> process sample_hold \<lparr>mode = ''custom'', gender_st = Fin 10, custom_st = Fin 12\<rparr>
         [0, 1, 0, 1, 0, 2, 0, 2] = Inr [0, 1, 0, 1, 0, 1, 0, 1]
   \<and> frombuffer_int16 [0, 1, 0, 1, 0, 2, 0, 2] = Inr [256, 256, 512, 512]
   \<and> downmix [256, 256, 512, 512] = [Fin (1 / 128), Fin (1 / 64)]
   \<and> vc_pitch_shift sample_hold [Fin (1 / 128), Fin (1 / 64)] (Fin 12)
       = Inr [Fin (1 / 128), Fin (1 / 128)]
   \<and> saturate_int16 (f32_mul (Fin (1 / 128)) (Fin 32768)) = Some 256
   \<and> saturate_int16 (Fin (3 * 32768)) = Some 32767
   \<and> saturate_int16 (Fin (- 3 * 32768)) = Some (- 32768)
   \<and> saturate_int16 PInf = Some 32767"
proof -
  let ?c = "\<lparr>mode = ''custom'', gender_st = Fin 10, custom_st = Fin 12\<rparr>"
  let ?pcm = "[0, 1, 0, 1, 0, 2, 0, 2 :: byte]"
  have st: "semitones ?c \<noteq> Fin 0" by (simp add: semitones_def)
  have wf: "length ?pcm mod 4 = 0" by simp
  have fb: "frombuffer_int16 ?pcm = Inr [256, 256, 512, 512]"
    by (simp add: int16_le_def)
  have dm: "downmix [256, 256, 512, 512] = [Fin (1 / 128), Fin (1 / 64)]"
    by (simp add: downmix_def)
  have e: "ENGINE sample_hold = Scipy"
    by (simp add: ENGINE_def sample_hold_def)
  have up: "pitch_shift_scipy sample_hold [Fin (1 / 128), Fin (1 / 64)] (Fin 12)
      = Inr [Fin (1 / 128), Fin (1 / 128)]"
    by (simp add: pitch_shift_scipy_def sample_hold_def py_truediv_def py_pow2_def
        py_float_of_nat_def py_round_float_def py_int_truediv_def int_ceil_def
        to_f64_values astype_float32_def to_f32_values Let_def np_tile_def py_round_def
        numeral_2_eq_2 numeral_3_eq_3)
  have ps: "vc_pitch_shift sample_hold [Fin (1 / 128), Fin (1 / 64)] (Fin 12)
      = Inr [Fin (1 / 128), Fin (1 / 128)]"
    using up by (simp add: vc_pitch_shift_scipy_eq [OF e])
  have p: "process sample_hold ?c ?pcm = Inr [0, 1, 0, 1, 0, 1, 0, 1]"
    by (simp add: process_def semitones_def int16_le_def np_add_def
        ps to_f32_values astype_int16_def np_clip_def
        tobytes_def np_repeat2_def Let_def)
  have sat: "saturate_int16 (f32_mul (Fin (1 / 128)) (Fin 32768)) = Some 256
      \<and> saturate_int16 (Fin (3 * 32768)) = Some 32767
      \<and> saturate_int16 (Fin (- 3 * 32768)) = Some (- 32768)
      \<and> saturate_int16 PInf = Some 32767"
    by (simp add: saturate_int16_def to_f32_values)
  from stereo_transform_shape [OF st wf p] have
    "\<exists>ws (shifted :: flt list). frombuffer_int16 ?pcm = Inr ws
       \<and> length [0, 1, 0, 1, 0, 1, 0, 1 :: byte] = 4 * length shifted"
    by blast
  with st wf p fb dm ps sat show ?thesis by simp
qed

text \<open>
  Claim C8. The selected engine is a function of which imports succeed, in the
  order pyrubberband, librosa, scipy: two environments with the same pyrubberband
  and librosa availability select the same engine, whatever else differs; and the
  dispatch of main.py and that of voice\_changer.py both follow that selection.
\<close>

theorem engine_selection_order:
  "(ENGINE L = Pyrubberband) = has_pyrubberband L
   \<and> (ENGINE L = Librosa) = (\<not> has_pyrubberband L \<and> has_librosa L)
   \<and> (ENGINE L = Scipy) = (\<not> has_pyrubberband L \<and> \<not> has_librosa L)
   \<and> (has_pyrubberband L = has_pyrubberband L' \<and> has_librosa L = has_librosa L'
        \<longrightarrow> ENGINE L = ENGINE L')
   \<and> (st \<noteq> Fin 0 \<longrightarrow>
        pitch_shift L audio st =
          (case ENGINE L of
             Pyrubberband \<Rightarrow> pitch_shift_rubberband L audio st
           | Librosa \<Rightarrow> pitch_shift_librosa L audio st
           | Scipy \<Rightarrow> pitch_shift_scipy L audio st))
   \<and> vc_pitch_shift L audio st =
          (case ENGINE L of
             Pyrubberband \<Rightarrow>
               try_then (pyrb_pitch_shift L audio DISCORD_SAMPLE_RATE st)
                 (\<lambda>y. Inr (map astype_float32 y))
           | Librosa \<Rightarrow>
               librosa_pitch_shift L (map astype_float32 audio) DISCORD_SAMPLE_RATE st None
           | Scipy \<Rightarrow> pitch_shift_scipy L audio st)"
  by (simp add: ENGINE_def pitch_shift_def vc_pitch_shift_def pitch_shift_scipy_def)

theorem engine_selection_order_witness:
  "has_pyrubberband sample_hold = has_pyrubberband (sample_hold\<lparr>has_scipy := False\<rparr>)
   \<and> has_librosa sample_hold = has_librosa (sample_hold\<lparr>has_scipy := False\<rparr>)
   \<and> ENGINE sample_hold = ENGINE (sample_hold\<lparr>has_scipy := False\<rparr>)
   \<and> ENGINE sample_hold = Scipy
   \<and> Fin 6 \<noteq> Fin 0
   \<and> pitch_shift sample_hold [Fin (1 / 128), Fin (1 / 64)] (Fin 6)
       = pitch_shift_scipy sample_hold [Fin (1 / 128), Fin (1 / 64)] (Fin 6)"
proof -
  have a: "has_pyrubberband sample_hold = has_pyrubberband (sample_hold\<lparr>has_scipy := False\<rparr>)
     \<and> has_librosa sample_hold = has_librosa (sample_hold\<lparr>has_scipy := False\<rparr>)"
    by simp
  have b: "\<not> has_pyrubberband sample_hold \<and> \<not> has_librosa sample_hold"
    by (simp add: sample_hold_def)
  have c: "Fin 6 \<noteq> Fin 0" by simp
  note t = engine_selection_order
    [of sample_hold "sample_hold\<lparr>has_scipy := False\<rparr>" "Fin 6"
        "[Fin (1 / 128), Fin (1 / 64)]"]
  from t a have d: "ENGINE sample_hold = ENGINE (sample_hold\<lparr>has_scipy := False\<rparr>)"
    by blast
  from t b have e: "ENGINE sample_hold = Scipy" by blast
  from t c have "pitch_shift sample_hold [Fin (1 / 128), Fin (1 / 64)] (Fin 6) =
          (case ENGINE sample_hold of
             Pyrubberband \<Rightarrow> pitch_shift_rubberband sample_hold [Fin (1 / 128), Fin (1 / 64)] (Fin 6)
           | Librosa \<Rightarrow> pitch_shift_librosa sample_hold [Fin (1 / 128), Fin (1 / 64)] (Fin 6)
           | Scipy \<Rightarrow> pitch_shift_scipy sample_hold [Fin (1 / 128), Fin (1 / 64)] (Fin 6))"
    by blast
  with e have f: "pitch_shift sample_hold [Fin (1 / 128), Fin (1 / 64)] (Fin 6)
      = pitch_shift_scipy sample_hold [Fin (1 / 128), Fin (1 / 64)] (Fin 6)"
    by simp
  from a c d e f show ?thesis by blast
qed

text \<open>
  Claim C10. As stated the claim fails: a NaN sample of the input block passes
  through the gain and \<^verbatim>\<open>tanh\<close> and is written to the output, where it is not
  within -1 and 1.
\<close>

theorem callback_nan_sample_written:
  "audio_callback sample_hold VOLUME_GAIN [0 \<mapsto> Fin 0] 0 [NaN, Fin 0] 2 = Inr [NaN, Fin 0]
   \<and> \<not> within_unit ([NaN, Fin 0] ! 0)"
  by (simp add: audio_callback_def VOLUME_GAIN_def astype_float32_def to_f32_values
      np_tanh_def within_unit_def Let_def)

text \<open>
  Claim C10, amended. Whenever the current mode has an entry in the shift table,
  \<^verbatim>\<open>audio_callback\<close> fills the output block with \<open>frames\<close> samples: position \<open>i\<close>
  holds \<open>tanh\<close> of the processed sample times the gain when \<open>i\<close> is below the
  processed length, and 0 beyond it. A written sample is NaN exactly when that
  product is NaN (with the program's gain 4.0: exactly when the processed sample
  is NaN); every other written sample is within -1 and 1. This holds for every
  input block, shift and gain, also when the pitch shift raised and the unshifted
  block is used.
\<close>

theorem callback_output_bounded:
  "semitone_map current_mode = Some st \<longrightarrow>
     (\<exists>out processed.
        audio_callback L gain semitone_map current_mode indata frames = Inr out
      \<and> processed = (if st \<noteq> Fin 0
                     then (case pitch_shift L indata st of Inl exc \<Rightarrow> indata | Inr p \<Rightarrow> p)
                     else indata)
      \<and> length out = frames
      \<and> (\<forall>i<frames.
             out ! i = (if i < length processed
                        then np_tanh (f32_mul (processed ! i) (astype_float32 gain))
                        else Fin 0)
           \<and> (out ! i = NaN)
               = (i < length processed \<and> f32_mul (processed ! i) (astype_float32 gain) = NaN)
           \<and> (gain = VOLUME_GAIN \<longrightarrow>
                 (out ! i = NaN) = (i < length processed \<and> processed ! i = NaN))
           \<and> (out ! i \<noteq> NaN \<longrightarrow> within_unit (out ! i))))"
proof
  assume m: "semitone_map current_mode = Some st"
  define processed where "processed = (if st \<noteq> Fin 0
                            then (case pitch_shift L indata st of
                                    Inl exc \<Rightarrow> indata
                                  | Inr p \<Rightarrow> p)
                            else indata)"
  define out where "out = take (min (length processed) frames)
         (map np_tanh (map (\<lambda>v. f32_mul v (astype_float32 gain)) processed))
       @ replicate (frames - min (length processed) frames) (Fin 0)"
  have r: "audio_callback L gain semitone_map current_mode indata frames = Inr out"
    using m by (simp add: audio_callback_def Let_def processed_def out_def)
  have l: "length out = frames" by (simp add: out_def)
  have v: "out ! i = (if i < length processed
                        then np_tanh (f32_mul (processed ! i) (astype_float32 gain))
                        else Fin 0)"
    if "i < frames" for i
    using that by (auto simp: out_def nth_append)
  have n: "(out ! i = NaN)
               = (i < length processed \<and> f32_mul (processed ! i) (astype_float32 gain) = NaN)"
    if "i < frames" for i
    unfolding v [OF that] by (simp add: np_tanh_NaN)
  have g: "(out ! i = NaN) = (i < length processed \<and> processed ! i = NaN)"
    if "i < frames" and "gain = VOLUME_GAIN" for i
    unfolding n [OF that(1)] using that(2)
    by (simp add: VOLUME_GAIN_def astype_float32_def to_f32_values f32_mul_gain_NaN)
  have b: "within_unit (out ! i)" if "i < frames" and "out ! i \<noteq> NaN" for i
  proof (cases "i < length processed")
    case True
    with that show ?thesis
      unfolding v [OF that(1)] by (simp add: np_tanh_within_unit)
  next
    case False
    then show ?thesis
      unfolding v [OF that(1)] by (simp add: within_unit_def)
  qed
  from r l v n g b processed_def
  show "\<exists>out processed.
        audio_callback L gain semitone_map current_mode indata frames = Inr out
      \<and> processed = (if st \<noteq> Fin 0
                     then (case pitch_shift L indata st of Inl exc \<Rightarrow> indata | Inr p \<Rightarrow> p)
                     else indata)
      \<and> length out = frames
      \<and> (\<forall>i<frames.
             out ! i = (if i < length processed
                        then np_tanh (f32_mul (processed ! i) (astype_float32 gain))
                        else Fin 0)
           \<and> (out ! i = NaN)
               = (i < length processed \<and> f32_mul (processed ! i) (astype_float32 gain) = NaN)
           \<and> (gain = VOLUME_GAIN \<longrightarrow>
                 (out ! i = NaN) = (i < length processed \<and> processed ! i = NaN))
           \<and> (out ! i \<noteq> NaN \<longrightarrow> within_unit (out ! i)))"
    by blast
qed

theorem callback_output_bounded_witness:
  "[Suc 0 \<mapsto> Fin 12] (Suc 0) = Some (Fin 12)
   \<and> pitch_shift sample_hold [Fin (1 / 128), Fin (1 / 64)] (Fin 12)
       = Inr [Fin (1 / 128), Fin (1 / 128)]
   \<and> audio_callback sample_hold VOLUME_GAIN [Suc 0 \<mapsto> Fin 12] (Suc 0)
         [Fin (1 / 128), Fin (1 / 64)] 3
       = Inr [np_tanh (Fin (1 / 32)), np_tanh (Fin (1 / 32)), Fin 0]
   \<and> np_tanh (Fin (1 / 32)) \<noteq> NaN
   \<and> within_unit (np_tanh (Fin (1 / 32)))"
proof -
  have m: "[Suc 0 \<mapsto> Fin 12] (Suc 0) = Some (Fin 12)" by simp
  have ps: "pitch_shift sample_hold [Fin (1 / 128), Fin (1 / 64)] (Fin 12)
      = Inr [Fin (1 / 128), Fin (1 / 128)]"
    by (simp add: pitch_shift_def pitch_shift_scipy_def sample_hold_def py_truediv_def
        py_pow2_def py_float_of_nat_def py_round_float_def py_int_truediv_def int_ceil_def
        to_f64_values astype_float32_def to_f32_values Let_def np_tile_def py_round_def
        numeral_2_eq_2 numeral_3_eq_3)
  have a: "audio_callback sample_hold VOLUME_GAIN [Suc 0 \<mapsto> Fin 12] (Suc 0)
         [Fin (1 / 128), Fin (1 / 64)] 3
       = Inr [np_tanh (Fin (1 / 32)), np_tanh (Fin (1 / 32)), Fin 0]"
    by (simp add: audio_callback_def ps VOLUME_GAIN_def astype_float32_def to_f32_values
        Let_def numeral_3_eq_3)
  have nn: "np_tanh (Fin (1 / 32)) \<noteq> NaN" by (simp add: np_tanh_NaN)
  note t = callback_output_bounded
    [of "[Suc 0 \<mapsto> Fin 12]" "Suc 0" "Fin 12" sample_hold VOLUME_GAIN
        "[Fin (1 / 128), Fin (1 / 64)]" 3, THEN mp, OF m]
  from t a have "\<forall>i<3. [np_tanh (Fin (1 / 32)), np_tanh (Fin (1 / 32)), Fin 0] ! i \<noteq> NaN
      \<longrightarrow> within_unit ([np_tanh (Fin (1 / 32)), np_tanh (Fin (1 / 32)), Fin 0] ! i)"
    by auto
  then have "[np_tanh (Fin (1 / 32)), np_tanh (Fin (1 / 32)), Fin 0] ! 0 \<noteq> NaN
      \<longrightarrow> within_unit ([np_tanh (Fin (1 / 32)), np_tanh (Fin (1 / 32)), Fin 0] ! 0)"
    by (metis zero_less_numeral)
  with nn have "within_unit (np_tanh (Fin (1 / 32)))" by simp
  with m ps a nn show ?thesis by simp
qed

end
